theory Spec2Isabelle
  imports Complex_Main
begin

section \<open>Values, exceptions and the observable world\<close>

text \<open>
  A value of the program is what \<^verbatim>\<open>response.json()\<close> can return: Python's \<^verbatim>\<open>None\<close> is
  \<open>JNull\<close>, a dict is \<open>JObj\<close> with its items in insertion order (a dict has no duplicate
  key, so a lookup reads the first item with that key). Of a number only its truth
  value is ever inspected.
\<close>

datatype json =
    JNull
  | JBool bool
  | JInt int
  | JFloat real
  | JStr string
  | JArr "json list"
  | JObj "(string \<times> json) list"

text \<open>Python's truth value of an object, as \<^verbatim>\<open>if geo_data:\<close> reads it.\<close>

fun truthy :: "json \<Rightarrow> bool" where
  "truthy JNull = False"
| "truthy (JBool b) = b"
| "truthy (JInt i) = (i \<noteq> 0)"
| "truthy (JFloat r) = (r \<noteq> 0)"
| "truthy (JStr s) = (s \<noteq> [])"
| "truthy (JArr xs) = (xs \<noteq> [])"
| "truthy (JObj kvs) = (kvs \<noteq> [])"

text \<open>
  The exceptions that reach a handler of the program. \<open>Timeout\<close> stands for every
  instance of \<^verbatim>\<open>requests.exceptions.Timeout\<close>, \<open>HTTPError\<close> carries the status
  \<^verbatim>\<open>raise_for_status\<close> refused, \<open>RequestException\<close> is any other instance of
  \<^verbatim>\<open>requests.exceptions.RequestException\<close> (connection failure, exhausted retries, an
  invalid URL), and the remaining constructors are exceptions outside that hierarchy.
\<close>

datatype exn =
    Timeout string
  | HTTPError nat
  | RequestException string
  | ValueError string
  | AttributeError string
  | EOFError
  | OtherException string

type_synonym params = "(string \<times> string) list"

type_synonym request = "string \<times> params"

text \<open>
  What the program writes or asks of its collaborators, in order. \<open>PrintExn p e\<close> and
  \<open>PrintVal p v\<close> are the f-strings \<^verbatim>\<open>f"{p}{e}"\<close> and \<^verbatim>\<open>f"{p}{v}"\<close>; \<open>Prompt p\<close> is the
  prompt of \<^verbatim>\<open>input(p)\<close>; \<open>SaveToFile\<close> and \<open>CreateMap\<close> are the calls of
  \<^verbatim>\<open>save_to_file\<close> and \<^verbatim>\<open>create_map\<close>, which catch every \<^verbatim>\<open>Exception\<close> of their
  own and so return to the caller.
\<close>

datatype event =
    Print string
  | PrintExn string exn
  | PrintVal string json
  | PrintOpts string "int list"
  | Prompt string
  | SaveToFile json string
  | CreateMap real real int string json

text \<open>
  The module-level \<^verbatim>\<open>geo_cache\<close>, the calls of \<^verbatim>\<open>session.get\<close> made so far, the lines
  still to be read from standard input, and the events so far.
\<close>

record world =
  geo_cache :: "string \<rightharpoonup> json"
  sent :: "request list"
  stdin :: "string list"
  stdout :: "event list"

text \<open>
  A response as the program reads it: its status code and what \<^verbatim>\<open>response.json()\<close>
  does, \<open>Inr\<close> the parsed body or \<open>Inl\<close> the exception raised on a body that does not
  decode. In requests 2.27 and later that exception is
  \<^verbatim>\<open>requests.exceptions.JSONDecodeError\<close>, a \<^verbatim>\<open>RequestException\<close>; before, it is a
  \<^verbatim>\<open>ValueError\<close> outside that hierarchy.
\<close>

record response =
  status_code :: nat
  body_json :: "exn + json"

datatype get_result = Raises exn | Returns response

text \<open>
  The session of \<^verbatim>\<open>setup_session\<close> as the program sees it: the outcome of one
  \<^verbatim>\<open>session.get(url, params=params, timeout=5)\<close>, which may depend on the calls made
  before. The retries the mounted adapter performs happen inside that one call.
\<close>

type_synonym session = "request list \<Rightarrow> request \<Rightarrow> get_result"

text \<open>The configuration \<^verbatim>\<open>setup_session\<close> hands to the adapter (line 16).\<close>

record retry =
  total :: nat
  backoff_factor :: nat
  status_forcelist :: "nat list"

definition setup_session_retries :: retry where
  "setup_session_retries =
     \<lparr>total = 3, backoff_factor = 1, status_forcelist = [429, 500, 502, 503, 504]\<rparr>"

section \<open>The geolocation client\<close>

definition API_KEY :: string where
  "API_KEY = ''20020022f148d7''"

text \<open>Line 28: an absent and an empty \<^verbatim>\<open>ip_address\<close> are both false.\<close>

definition url_for :: "string option \<Rightarrow> string" where
  "url_for ip_address =
     (case ip_address of
        None \<Rightarrow> ''https://ipinfo.io/json''
      | Some ip \<Rightarrow>
          if ip \<noteq> [] then ''https://ipinfo.io/'' @ ip @ ''/json''
          else ''https://ipinfo.io/json'')"

text \<open>Line 31.\<close>

definition params_for :: "string \<Rightarrow> params" where
  "params_for api_key = (if api_key \<noteq> [] then [(''token'', api_key)] else [])"

text \<open>
  \<^verbatim>\<open>str(params)\<close> of a dict of strings. \<open>py_repr\<close> is \<^verbatim>\<open>repr\<close> on a string of letters and
  digits, as the key \<^verbatim>\<open>token\<close> and \<open>API_KEY\<close> are: the text between single quotes.
\<close>

definition py_repr :: "string \<Rightarrow> string" where
  "py_repr s = [CHR 0x27] @ s @ [CHR 0x27]"

fun join_items :: "string list \<Rightarrow> string" where
  "join_items [] = []"
| "join_items [x] = x"
| "join_items (x # y # ys) = x @ '', '' @ join_items (y # ys)"

definition str_params :: "params \<Rightarrow> string" where
  "str_params ps =
     ''{'' @ join_items (map (\<lambda>(k, v). py_repr k @ '': '' @ py_repr v) ps) @ ''}''"

text \<open>Line 34.\<close>

definition cache_key :: "string \<Rightarrow> string option \<Rightarrow> string" where
  "cache_key api_key ip_address = url_for ip_address @ str_params (params_for api_key)"

text \<open>\<^verbatim>\<open>response.raise_for_status()\<close>: a 4xx or 5xx status raises.\<close>

definition raise_for_status :: "response \<Rightarrow> exn + unit" where
  "raise_for_status r =
     (if 400 \<le> status_code r \<and> status_code r < 600 then Inl (HTTPError (status_code r))
      else Inr ())"

text \<open>\<^verbatim>\<open>response.json()\<close>.\<close>

definition response_json :: "response \<Rightarrow> exn + json" where
  "response_json r = body_json r"

text \<open>Lines 40 to 42, the body of the \<^verbatim>\<open>try\<close> up to the assignment of \<^verbatim>\<open>geo_data\<close>.\<close>

definition try_request :: "get_result \<Rightarrow> exn + json" where
  "try_request g =
     (case g of
        Raises e \<Rightarrow> Inl e
      | Returns r \<Rightarrow>
          (case raise_for_status r of
             Inl e \<Rightarrow> Inl e
           | Inr _ \<Rightarrow> response_json r))"

definition emit :: "event \<Rightarrow> world \<Rightarrow> world" where
  "emit e w = w\<lparr>stdout := stdout w @ [e]\<rparr>"

text \<open>
  Lines 45 to 51: the three handlers, in the source's order, each falling through to
  \<^verbatim>\<open>return None\<close>; any other exception leaves the function.
\<close>

fun handle_request_error :: "exn \<Rightarrow> world \<Rightarrow> (exn + json) \<times> world" where
  "handle_request_error (Timeout m) w =
     (Inr JNull, emit (Print ''Error: Request timed out. Please check your connection.'') w)"
| "handle_request_error (HTTPError c) w =
     (Inr JNull, emit (PrintExn ''HTTP error occurred: '' (HTTPError c)) w)"
| "handle_request_error (RequestException m) w =
     (Inr JNull, emit (PrintExn ''Request error: '' (RequestException m)) w)"
| "handle_request_error e w = (Inl e, w)"

text \<open>
  \<^verbatim>\<open>get_ip_geolocation\<close>, with the local constant of line 24 as its first argument.
\<close>

definition get_ip_geolocation ::
  "string \<Rightarrow> session \<Rightarrow> string option \<Rightarrow> world \<Rightarrow> (exn + json) \<times> world" where
  "get_ip_geolocation api_key session ip_address w =
     (let url = url_for ip_address;
          ps = params_for api_key;
          key = url @ str_params ps
      in case geo_cache w key of
           Some v \<Rightarrow> (Inr v, emit (Print ''Using cached data...'') w)
         | None \<Rightarrow>
             (let w1 = w\<lparr>sent := sent w @ [(url, ps)]\<rparr>
              in case try_request (session (sent w) (url, ps)) of
                   Inr geo_data \<Rightarrow>
                     (Inr geo_data, w1\<lparr>geo_cache := (geo_cache w1)(key \<mapsto> geo_data)\<rparr>)
                 | Inl e \<Rightarrow> handle_request_error e w1))"

text \<open>A sequence of lookups, each with its own target and provider behaviour.\<close>

fun lookups :: "string \<Rightarrow> (session \<times> string option) list \<Rightarrow> world \<Rightarrow> world" where
  "lookups api_key [] w = w"
| "lookups api_key ((s, ip) # cs) w =
     lookups api_key cs (snd (get_ip_geolocation api_key s ip w))"

section \<open>The interactive session\<close>

text \<open>
  A character of a text is its code point, from 0 to 255. \<^verbatim>\<open>str.strip()\<close> removes the
  characters for which \<^verbatim>\<open>str.isspace()\<close> holds: in this range the ASCII white space,
  the four separators 0x1C to 0x1F, the next-line character 0x85 and the no-break space
  0xA0. \<^verbatim>\<open>str.lower()\<close> moves the capital letters, A to Z and 0xC0 to 0xDE but for the
  multiplication sign 0xD7, 32 code points up, and keeps every other character.
\<close>

definition is_space :: "char \<Rightarrow> bool" where
  "is_space c =
     (c \<in> set [CHR 0x20, CHR 0x09, CHR 0x0A, CHR 0x0B, CHR 0x0C, CHR 0x0D,
                CHR 0x1C, CHR 0x1D, CHR 0x1E, CHR 0x1F, CHR 0x85, CHR 0xA0])"

definition py_strip :: "string \<Rightarrow> string" where
  "py_strip s = rev (dropWhile is_space (rev (dropWhile is_space s)))"

definition lower_char :: "char \<Rightarrow> char" where
  "lower_char c =
     (let n = (of_char c :: nat)
      in if (65 \<le> n \<and> n \<le> 90) \<or> (192 \<le> n \<and> n \<le> 222 \<and> n \<noteq> 215)
         then char_of (n + 32)
         else c)"

definition py_lower :: "string \<Rightarrow> string" where
  "py_lower s = map lower_char s"

text \<open>\<^verbatim>\<open>s.split(sep)\<close> for a separator of one character: never an empty list.\<close>

fun py_split :: "char \<Rightarrow> string \<Rightarrow> string list" where
  "py_split sep [] = [[]]"
| "py_split sep (c # cs) =
     (if c = sep then [] # py_split sep cs
      else (case py_split sep cs of
              [] \<Rightarrow> [[c]]
            | p # ps \<Rightarrow> (c # p) # ps))"

text \<open>\<^verbatim>\<open>d.get(key, default)\<close> on the items of a dict.\<close>

definition dict_get :: "(string \<times> json) list \<Rightarrow> string \<Rightarrow> json \<Rightarrow> json" where
  "dict_get kvs key dflt = (case map_of kvs key of Some v \<Rightarrow> v | None \<Rightarrow> dflt)"

text \<open>
  \<^verbatim>\<open>input(prompt)\<close>: writes the prompt and reads one line; at the end of the input it
  raises \<^verbatim>\<open>EOFError\<close>.
\<close>

definition py_input :: "string \<Rightarrow> world \<Rightarrow> (exn + string) \<times> world" where
  "py_input prompt w =
     (case stdin w of
        [] \<Rightarrow> (Inl EOFError, emit (Prompt prompt) w)
      | l # ls \<Rightarrow> (Inr l, (emit (Prompt prompt) w)\<lparr>stdin := ls\<rparr>))"

text \<open>
  \<^verbatim>\<open>get_valid_input\<close> (lines 109 to 119). \<open>type_cast\<close> is the conversion the caller
  passes, \<open>None\<close> where it raises \<^verbatim>\<open>ValueError\<close>; both callers pass \<^verbatim>\<open>int\<close>, so the
  notice says "number". An absent and an empty \<open>valid_options\<close> are both false.
\<close>

function get_valid_input ::
  "string \<Rightarrow> int list \<Rightarrow> (string \<Rightarrow> int option) \<Rightarrow> world \<Rightarrow> (exn + int) \<times> world" where
  "get_valid_input prompt valid_options type_cast w =
     (case py_input prompt w of
        (Inl e, w1) \<Rightarrow> (Inl e, w1)
      | (Inr line, w1) \<Rightarrow>
          (case type_cast (py_strip line) of
             None \<Rightarrow>
               get_valid_input prompt valid_options type_cast
                 (emit (Print ''Invalid input! Please enter a valid number.'') w1)
           | Some v \<Rightarrow>
               if valid_options \<noteq> [] \<and> v \<notin> set valid_options
               then get_valid_input prompt valid_options type_cast
                      (emit (PrintOpts ''Please choose from: '' valid_options) w1)
               else (Inr v, w1)))"
  by pat_completeness auto
termination
  by (relation "measure (\<lambda>(p, vo, tc, w). length (stdin w))")
     (auto simp: py_input_def emit_def split: list.splits)

declare get_valid_input.simps [simp del]

text \<open>\<^verbatim>\<open>display_menu\<close> (lines 121 to 130).\<close>

definition menu_lines :: "event list" where
  "menu_lines =
     [Print (CHR 0x0A # ''=== IP Geolocation Tracker ===''),
      Print ''1. Geolocate my IP'',
      Print ''2. Geolocate a specific IP'',
      Print ''3. View last geolocation details'',
      Print ''4. Save last geolocation to file'',
      Print ''5. Create map with custom options'',
      Print ''6. Exit'']"

definition display_menu :: "(string \<Rightarrow> int option) \<Rightarrow> world \<Rightarrow> (exn + int) \<times> world" where
  "display_menu py_int w =
     get_valid_input ''Choose an option (1-6): '' [1, 2, 3, 4, 5, 6] py_int
       (w\<lparr>stdout := stdout w @ menu_lines\<rparr>)"

text \<open>
  \<^verbatim>\<open>display_details\<close> (lines 93 to 107). Only a dict has \<^verbatim>\<open>get\<close>: on any other true
  value the first \<^verbatim>\<open>geo_data.get\<close> raises \<^verbatim>\<open>AttributeError\<close>, after the heading.
\<close>

definition detail_lines :: "(string \<times> json) list \<Rightarrow> event list" where
  "detail_lines kvs =
     [PrintVal ''IP: '' (dict_get kvs ''ip'' (JStr ''N/A'')),
      PrintVal ''City: '' (dict_get kvs ''city'' (JStr ''N/A'')),
      PrintVal ''Region: '' (dict_get kvs ''region'' (JStr ''N/A'')),
      PrintVal ''Country: '' (dict_get kvs ''country'' (JStr ''N/A'')),
      PrintVal ''Organization: '' (dict_get kvs ''org'' (JStr ''N/A'')),
      PrintVal ''Timezone: '' (dict_get kvs ''timezone'' (JStr ''N/A'')),
      PrintVal ''Coordinates: '' (dict_get kvs ''loc'' (JStr ''N/A''))]"

definition display_details :: "json \<Rightarrow> world \<Rightarrow> (exn + unit) \<times> world" where
  "display_details geo_data w =
     (if \<not> truthy geo_data then (Inr (), emit (Print ''No geolocation data to display.'') w)
      else
        (let w1 = emit (Print (CHR 0x0A # ''=== Geolocation Details ==='')) w
         in case geo_data of
              JObj kvs \<Rightarrow> (Inr (), w1\<lparr>stdout := stdout w1 @ detail_lines kvs\<rparr>)
            | _ \<Rightarrow> (Inl (AttributeError ''get''), w1)))"

text \<open>\<^verbatim>\<open>save_to_file\<close> and \<^verbatim>\<open>create_map\<close>, as the calls the collaborators receive.\<close>

definition save_to_file :: "json \<Rightarrow> world \<Rightarrow> world" where
  "save_to_file geo_data w = emit (SaveToFile geo_data ''geolocation_data.json'') w"

definition create_map :: "real \<Rightarrow> real \<Rightarrow> int \<Rightarrow> string \<Rightarrow> json \<Rightarrow> world \<Rightarrow> world" where
  "create_map latitude longitude zoom_level marker_color details w =
     emit (CreateMap latitude longitude zoom_level marker_color details) w"

text \<open>
  One pass of the loop of \<^verbatim>\<open>main\<close> ends in one of three ways: the loop goes on with
  \<^verbatim>\<open>last_geo_data\<close> and the world as they are now, the loop is left by choice 6, or an
  exception no handler catches ends the process.
\<close>

datatype step = Continue json world | Exit world | Crash exn world

text \<open>Lines 144 to 146 and 153 to 155: what both lookups do with the result.\<close>

definition store_result :: "json \<Rightarrow> (exn + json) \<times> world \<Rightarrow> step" where
  "store_result last_geo_data res =
     (case res of
        (Inl e, w) \<Rightarrow> Crash e w
      | (Inr geo_data, w) \<Rightarrow>
          if truthy geo_data
          then (case display_details geo_data w of
                  (Inl e, w') \<Rightarrow> Crash e w'
                | (Inr _, w') \<Rightarrow> Continue geo_data w')
          else Continue last_geo_data w)"

text \<open>Choice 1 (lines 140 to 146): the lookup of lines 142 and 143, then the store.\<close>

definition fetch_self :: "session \<Rightarrow> world \<Rightarrow> (exn + json) \<times> world" where
  "fetch_self session w =
     get_ip_geolocation API_KEY session None
       (emit (Print (CHR 0x0A # ''Fetching geolocation for your IP...'')) w)"

definition choice_1 :: "session \<Rightarrow> json \<Rightarrow> world \<Rightarrow> step" where
  "choice_1 session last_geo_data w = store_result last_geo_data (fetch_self session w)"

text \<open>
  Choice 2 (lines 148 to 155): the lookup of lines 150 to 152, then the store. At the
  end of the input \<^verbatim>\<open>input\<close> raises, and nothing catches it.
\<close>

definition fetch_target :: "session \<Rightarrow> world \<Rightarrow> (exn + json) \<times> world" where
  "fetch_target session w =
     (case py_input (CHR 0x0A # ''Enter IP address to geolocate: '') w of
        (Inl e, w1) \<Rightarrow> (Inl e, w1)
      | (Inr line, w1) \<Rightarrow>
          (let ip_address = py_strip line
           in get_ip_geolocation API_KEY session (Some ip_address)
                (emit (Print (''Fetching geolocation for IP: '' @ ip_address @ ''...'')) w1)))"

definition choice_2 :: "session \<Rightarrow> json \<Rightarrow> world \<Rightarrow> step" where
  "choice_2 session last_geo_data w = store_result last_geo_data (fetch_target session w)"

text \<open>Choice 3 (lines 157 to 162).\<close>

definition choice_3 :: "json \<Rightarrow> world \<Rightarrow> step" where
  "choice_3 last_geo_data w =
     (if truthy last_geo_data
      then (case display_details last_geo_data w of
              (Inl e, w') \<Rightarrow> Crash e w'
            | (Inr _, w') \<Rightarrow> Continue last_geo_data w')
      else Continue last_geo_data
             (emit (Print (CHR 0x0A # ''No geolocation data available. Fetch data first.'')) w))"

text \<open>Choice 4 (lines 164 to 169).\<close>

definition choice_4 :: "json \<Rightarrow> world \<Rightarrow> step" where
  "choice_4 last_geo_data w =
     (if truthy last_geo_data then Continue last_geo_data (save_to_file last_geo_data w)
      else Continue last_geo_data
             (emit (Print (CHR 0x0A # ''No geolocation data to save. Fetch data first.'')) w))"

text \<open>Lines 186 to 188 and 192 to 194: the two defaults of the map options.\<close>

definition zoom_or_default :: "int \<Rightarrow> world \<Rightarrow> int \<times> world" where
  "zoom_or_default zoom_level w =
     (if \<not> (1 \<le> zoom_level \<and> zoom_level \<le> 18)
      then (10, emit (Print ''Zoom level out of range. Using default (10).'') w)
      else (zoom_level, w))"

definition marker_colors :: "string list" where
  "marker_colors = [''red'', ''blue'', ''green'', ''purple'', ''orange'']"

definition color_or_default :: "string \<Rightarrow> world \<Rightarrow> string \<times> world" where
  "color_or_default marker_color w =
     (if marker_color \<notin> set marker_colors
      then (''blue'', emit (Print ''Invalid color. Using default (blue).'') w)
      else (marker_color, w))"

text \<open>
  Lines 185 to 196: the options are asked for once both coordinates are numbers. Neither
  \<^verbatim>\<open>EOFError\<close> of the two reads is a \<^verbatim>\<open>ValueError\<close>, so neither is caught.
\<close>

definition ask_options_and_map ::
  "(string \<Rightarrow> int option) \<Rightarrow> real \<Rightarrow> real \<Rightarrow> json \<Rightarrow> world \<Rightarrow> step" where
  "ask_options_and_map py_int lat lon last_geo_data w =
     (case get_valid_input ''Enter zoom level (1-18, default 10): '' [] py_int w of
        (Inl e, w1) \<Rightarrow> Crash e w1
      | (Inr z, w1) \<Rightarrow>
          (case zoom_or_default z w1 of
             (zoom_level, w2) \<Rightarrow>
               (case py_input ''Enter marker color (default blue): ''
                       (emit (Print (CHR 0x0A #
                          ''Available marker colors: red, blue, green, purple, orange'')) w2) of
                  (Inl e, w3) \<Rightarrow> Crash e w3
                | (Inr line, w3) \<Rightarrow>
                    (case color_or_default (py_lower (py_strip line)) w3 of
                       (marker_color, w4) \<Rightarrow>
                         Continue last_geo_data
                           (create_map lat lon zoom_level marker_color last_geo_data w4)))))"

text \<open>
  Choice 5 (lines 171 to 198). \<open>py_float\<close> is \<^verbatim>\<open>float\<close> on text, \<open>None\<close> where it raises
  \<^verbatim>\<open>ValueError\<close>. \<^verbatim>\<open>last_geo_data.get\<close> needs a dict and \<^verbatim>\<open>.split\<close> needs text: on
  anything else the attribute is missing, and \<^verbatim>\<open>AttributeError\<close> is not caught by
  \<^verbatim>\<open>except ValueError\<close>.
\<close>

definition choice_5 ::
  "(string \<Rightarrow> int option) \<Rightarrow> (string \<Rightarrow> real option) \<Rightarrow> json \<Rightarrow> world \<Rightarrow> step" where
  "choice_5 py_int py_float last_geo_data w =
     (if \<not> truthy last_geo_data
      then Continue last_geo_data
             (emit (Print (CHR 0x0A # ''No geolocation data available. Fetch data first.'')) w)
      else
        (case last_geo_data of
           JObj kvs \<Rightarrow>
             (case dict_get kvs ''loc'' (JStr []) of
                JStr s \<Rightarrow>
                  (let loc = py_split (CHR '','') s
                   in if length loc \<noteq> 2
                      then Continue last_geo_data
                             (emit (Print ''Error: Could not extract location data.'') w)
                      else
                        (case py_float (loc ! 0) of
                           None \<Rightarrow>
                             Continue last_geo_data
                               (emit (Print ''Error: Invalid location data format.'') w)
                         | Some lat \<Rightarrow>
                             (case py_float (loc ! 1) of
                                None \<Rightarrow>
                                  Continue last_geo_data
                                    (emit (Print ''Error: Invalid location data format.'') w)
                              | Some lon \<Rightarrow>
                                  ask_options_and_map py_int lat lon last_geo_data w)))
              | _ \<Rightarrow> Crash (AttributeError ''split'') w)
         | _ \<Rightarrow> Crash (AttributeError ''get'') w))"

text \<open>The body of the loop of \<^verbatim>\<open>main\<close> (lines 138 to 202).\<close>

definition main_body ::
  "(string \<Rightarrow> int option) \<Rightarrow> (string \<Rightarrow> real option) \<Rightarrow> session \<Rightarrow> json \<Rightarrow> world \<Rightarrow> step" where
  "main_body py_int py_float session last_geo_data w =
     (case display_menu py_int w of
        (Inl e, w1) \<Rightarrow> Crash e w1
      | (Inr choice, w1) \<Rightarrow>
          if choice = 1 then choice_1 session last_geo_data w1
          else if choice = 2 then choice_2 session last_geo_data w1
          else if choice = 3 then choice_3 last_geo_data w1
          else if choice = 4 then choice_4 last_geo_data w1
          else if choice = 5 then choice_5 py_int py_float last_geo_data w1
          else if choice = 6
          then Exit (emit (Print (CHR 0x0A # ''Exiting IP Geolocation Tracker. Goodbye!'')) w1)
          else Continue last_geo_data w1)"

section \<open>The loop of the session ends\<close>

text \<open>
  Every pass of the loop reads at least the line of the menu choice, and no step gives
  a line back: on a finite input the loop ends, by choice 6 or by an exception.
\<close>

lemma handle_request_error_frame:
  "geo_cache (snd (handle_request_error e w)) = geo_cache w \<and>
   sent (snd (handle_request_error e w)) = sent w \<and>
   stdin (snd (handle_request_error e w)) = stdin w"
  by (cases e) (simp_all add: emit_def)

lemma py_input_consumes:
  "py_input p w = (Inr l, w1) \<Longrightarrow> length (stdin w1) < length (stdin w)"
  by (auto simp: py_input_def emit_def split: list.splits)

lemma py_input_frame:
  "geo_cache (snd (py_input p w)) = geo_cache w \<and> sent (snd (py_input p w)) = sent w"
  by (auto simp: py_input_def emit_def split: list.splits)

lemma get_valid_input_consumes:
  "get_valid_input p vo tc w = (Inr v, w1) \<Longrightarrow> length (stdin w1) < length (stdin w)"
proof (induction p vo tc w rule: get_valid_input.induct)
  case (1 prompt valid_options type_cast w)
  show ?case
  proof (cases "py_input prompt w")
    case (Pair r w0)
    show ?thesis
    proof (cases r)
      case (Inl e)
      with Pair "1.prems" show ?thesis
        by (simp add: get_valid_input.simps)
    next
      case (Inr line)
      note inp = Pair [unfolded Inr]
      have lt: "length (stdin w0) < length (stdin w)"
        by (rule py_input_consumes [OF inp])
      show ?thesis
      proof (cases "type_cast (py_strip line)")
        case None
        have "get_valid_input prompt valid_options type_cast
                (emit (Print ''Invalid input! Please enter a valid number.'') w0) = (Inr v, w1)"
          using "1.prems" inp None by (simp add: get_valid_input.simps [of _ _ _ w])
        then have "length (stdin w1) < length (stdin (emit (Print ''Invalid input! Please enter a valid number.'') w0))"
          by (rule "1.IH"(1) [OF inp [symmetric] refl None])
        then show ?thesis using lt by (simp add: emit_def)
      next
        case (Some x)
        show ?thesis
        proof (cases "valid_options \<noteq> [] \<and> x \<notin> set valid_options")
          case True
          have "get_valid_input prompt valid_options type_cast
                (emit (PrintOpts ''Please choose from: '' valid_options) w0) = (Inr v, w1)"
            using "1.prems" inp Some True by (simp add: get_valid_input.simps [of _ _ _ w])
          then have "length (stdin w1) < length (stdin (emit (PrintOpts ''Please choose from: '' valid_options) w0))"
            by (rule "1.IH"(2) [OF inp [symmetric] refl Some True])
          then show ?thesis using lt by (simp add: emit_def)
        next
          case False
          then have "w1 = w0"
            using "1.prems" inp Some by (auto simp: get_valid_input.simps [of _ _ _ w])
          then show ?thesis using lt by simp
        qed
      qed
    qed
  qed
qed

lemma get_valid_input_frame:
  "geo_cache (snd (get_valid_input p vo tc w)) = geo_cache w \<and>
   sent (snd (get_valid_input p vo tc w)) = sent w"
proof (induction p vo tc w rule: get_valid_input.induct)
  case (1 prompt valid_options type_cast w)
  obtain r w0 where inp: "py_input prompt w = (r, w0)"
    by (cases "py_input prompt w")
  have fr: "geo_cache w0 = geo_cache w \<and> sent w0 = sent w"
    using py_input_frame [of prompt w] by (simp add: inp)
  show ?case
  proof (cases r)
    case (Inl e)
    then show ?thesis
      using inp fr by (simp add: get_valid_input.simps [of _ _ _ w])
  next
    case (Inr line)
    note inp' = inp [unfolded Inr]
    show ?thesis
    proof (cases "type_cast (py_strip line)")
      case None
      show ?thesis
        using "1.IH"(1) [OF inp' [symmetric] refl None] inp' None fr
        by (simp add: get_valid_input.simps [of _ _ _ w] emit_def)
    next
      case (Some x)
      show ?thesis
      proof (cases "valid_options \<noteq> [] \<and> x \<notin> set valid_options")
        case True
        show ?thesis
          using "1.IH"(2) [OF inp' [symmetric] refl Some True] inp' Some True fr
          by (simp add: get_valid_input.simps [of _ _ _ w] emit_def)
      next
        case False
        then show ?thesis
          using inp' Some fr by (auto simp: get_valid_input.simps [of _ _ _ w])
      qed
    qed
  qed
qed

lemma display_details_frame:
  "geo_cache (snd (display_details g w)) = geo_cache w \<and>
   sent (snd (display_details g w)) = sent w \<and>
   stdin (snd (display_details g w)) = stdin w"
  by (cases g) (simp_all add: display_details_def emit_def Let_def)

lemma get_ip_geolocation_stdin:
  "stdin (snd (get_ip_geolocation k s ip w)) = stdin w"
  by (simp add: get_ip_geolocation_def Let_def emit_def handle_request_error_frame
      split: option.splits sum.splits)

lemma store_result_stdin:
  "store_result slot (r, w) = Continue slot' w' \<Longrightarrow> stdin w' = stdin w"
  using display_details_frame [of "projr r" w]
  by (auto simp: store_result_def split: sum.splits if_splits prod.splits)

lemma choice_1_stdin:
  "choice_1 s slot w = Continue slot' w' \<Longrightarrow> stdin w' = stdin w"
  using store_result_stdin [of slot "fst (fetch_self s w)" "snd (fetch_self s w)" slot' w']
    get_ip_geolocation_stdin [of API_KEY s None]
  by (simp add: choice_1_def fetch_self_def emit_def)

lemma fetch_target_stdin:
  "length (stdin (snd (fetch_target s w))) \<le> length (stdin w)"
  using py_input_consumes [of "CHR 0x0A # ''Enter IP address to geolocate: ''" w]
  by (auto simp: fetch_target_def get_ip_geolocation_stdin emit_def Let_def py_input_def
      split: prod.splits sum.splits list.splits)

lemma choice_2_stdin:
  "choice_2 s slot w = Continue slot' w' \<Longrightarrow> length (stdin w') \<le> length (stdin w)"
  using store_result_stdin [of slot "fst (fetch_target s w)" "snd (fetch_target s w)" slot' w']
    fetch_target_stdin [of s w]
  by (simp add: choice_2_def)

lemma choice_3_stdin:
  "choice_3 slot w = Continue slot' w' \<Longrightarrow> stdin w' = stdin w"
  using display_details_frame [of slot w]
  by (auto simp: choice_3_def emit_def split: if_splits prod.splits sum.splits)

lemma choice_4_stdin:
  "choice_4 slot w = Continue slot' w' \<Longrightarrow> stdin w' = stdin w"
  by (auto simp: choice_4_def save_to_file_def emit_def split: if_splits)

lemma ask_options_and_map_stdin:
  "ask_options_and_map ic lat lon slot w = Continue slot' w' \<Longrightarrow>
     length (stdin w') \<le> length (stdin w)"
proof -
  assume a: "ask_options_and_map ic lat lon slot w = Continue slot' w'"
  obtain r w1 where g: "get_valid_input ''Enter zoom level (1-18, default 10): '' [] ic w = (r, w1)"
    by (cases "get_valid_input ''Enter zoom level (1-18, default 10): '' [] ic w")
  from a g obtain z where r: "r = Inr z"
    by (cases r) (simp_all add: ask_options_and_map_def)
  have l1: "length (stdin w1) < length (stdin w)"
    using get_valid_input_consumes g r by blast
  show ?thesis
    using a g r l1
    by (auto simp: ask_options_and_map_def zoom_or_default_def color_or_default_def
        create_map_def emit_def py_input_def
        split: if_splits prod.splits sum.splits list.splits)
qed

lemma choice_5_stdin:
  "choice_5 ic fc slot w = Continue slot' w' \<Longrightarrow> length (stdin w') \<le> length (stdin w)"
  using ask_options_and_map_stdin [of ic _ _ slot w slot' w']
  by (auto simp: choice_5_def emit_def Let_def
      split: if_splits json.splits option.splits)

lemma main_body_consumes:
  assumes "main_body ic fc s slot w = Continue slot' w'"
  shows "length (stdin w') < length (stdin w)"
proof -
  obtain r w1 where m: "display_menu ic w = (r, w1)"
    by (cases "display_menu ic w")
  from assms m obtain c where r: "r = Inr c"
    by (cases r) (simp_all add: main_body_def)
  have "length (stdin w1) < length (stdin (w\<lparr>stdout := stdout w @ menu_lines\<rparr>))"
    using m r get_valid_input_consumes unfolding display_menu_def by blast
  then have l1: "length (stdin w1) < length (stdin w)"
    by simp
  show ?thesis
    using assms m r l1 choice_1_stdin [of s slot w1 slot' w'] choice_2_stdin [of s slot w1 slot' w']
      choice_3_stdin [of slot w1 slot' w'] choice_4_stdin [of slot w1 slot' w']
      choice_5_stdin [of ic fc slot w1 slot' w']
    by (auto simp: main_body_def split: if_splits)
qed

text \<open>\<^verbatim>\<open>main\<close> (lines 132 to 202): the loop, and its start with an empty slot.\<close>

function main_loop ::
  "(string \<Rightarrow> int option) \<Rightarrow> (string \<Rightarrow> real option) \<Rightarrow> session \<Rightarrow> json \<Rightarrow> world
     \<Rightarrow> exn option \<times> world" where
  "main_loop py_int py_float session last_geo_data w =
     (case main_body py_int py_float session last_geo_data w of
        Continue last_geo_data' w' \<Rightarrow> main_loop py_int py_float session last_geo_data' w'
      | Exit w' \<Rightarrow> (None, w')
      | Crash e w' \<Rightarrow> (Some e, w'))"
  by pat_completeness auto
termination
  by (relation "measure (\<lambda>(ic, fc, s, slot, w). length (stdin w))")
     (auto dest: main_body_consumes)

declare main_loop.simps [simp del]

definition main :: "(string \<Rightarrow> int option) \<Rightarrow> (string \<Rightarrow> real option) \<Rightarrow> session \<Rightarrow> world
     \<Rightarrow> exn option \<times> world" where
  "main py_int py_float session w = main_loop py_int py_float session JNull w"


section \<open>Notions the properties speak of\<close>

text \<open>
  \<open>is_request_exception e\<close>: \<open>e\<close> is an instance of \<^verbatim>\<open>RequestException\<close>, so one of the three
  handlers of the client catches it. \<open>failing g\<close>: the provider's answer makes the request
  fail with such an exception, raised by \<^verbatim>\<open>session.get\<close> (a timeout, a connection failure,
  exhausted retries), by \<^verbatim>\<open>raise_for_status\<close> (a 4xx or 5xx status) or by
  \<^verbatim>\<open>response.json()\<close> (a body that does not decode). \<open>effective_target\<close>: the target as
  line 28 reads it, an empty text being no target. \<open>slot_after st\<close>: the value of
  \<^verbatim>\<open>last_geo_data\<close> with which the loop goes on after the step \<open>st\<close>, if it goes on.
\<close>

fun is_request_exception :: "exn \<Rightarrow> bool" where
  "is_request_exception (Timeout m) = True"
| "is_request_exception (HTTPError c) = True"
| "is_request_exception (RequestException m) = True"
| "is_request_exception e = False"

definition failing :: "get_result \<Rightarrow> bool" where
  "failing g =
     (case g of
        Raises e \<Rightarrow> is_request_exception e
      | Returns r \<Rightarrow>
          (400 \<le> status_code r \<and> status_code r < 600) \<or>
          (case body_json r of Inl e \<Rightarrow> is_request_exception e | Inr j \<Rightarrow> False))"

definition effective_target :: "string option \<Rightarrow> string option" where
  "effective_target ip_address =
     (case ip_address of None \<Rightarrow> None | Some ip \<Rightarrow> if ip = [] then None else Some ip)"

definition slot_after :: "step \<Rightarrow> json option" where
  "slot_after st =
     (case st of Continue slot w \<Rightarrow> Some slot | Exit w \<Rightarrow> None | Crash e w \<Rightarrow> None)"

section \<open>Concrete inputs\<close>

text \<open>
  Inputs for concrete runs: an empty world, a provider answer with the record of the
  end-to-end scenario, and providers that answer it, time out, cannot be reached, send
  a body that does not decode, or answer a given status with a given body.
  \<open>sample_int\<close> reads an unsigned decimal numeral and \<open>sample_float\<close> the two coordinates
  of the record; they stand for \<^verbatim>\<open>int\<close> and \<^verbatim>\<open>float\<close> on these texts.
\<close>

definition w0 :: world where
  "w0 = \<lparr>geo_cache = Map.empty, sent = [], stdin = [], stdout = []\<rparr>"

definition sample_record :: json where
  "sample_record =
     JObj [(''ip'', JStr ''8.8.8.8''), (''city'', JStr ''Mountain View''),
           (''loc'', JStr ''37.4,-122.08'')]"

definition answering :: "nat \<Rightarrow> json \<Rightarrow> session" where
  "answering code j history req = Returns \<lparr>status_code = code, body_json = Inr j\<rparr>"

definition healthy :: session where
  "healthy = answering 200 sample_record"

definition timing_out :: session where
  "timing_out history req = Raises (Timeout ''read timed out'')"

definition unreachable :: session where
  "unreachable history req = Raises (RequestException ''connection refused'')"

definition garbled :: session where
  "garbled history req =
     Returns \<lparr>status_code = 200, body_json = Inl (RequestException ''Expecting value'')\<rparr>"

definition digit_of :: "char \<Rightarrow> nat option" where
  "digit_of = map_of (zip ''0123456789'' [0, 1, 2, 3, 4, 5, 6, 7, 8, 9])"

fun dec_value :: "nat \<Rightarrow> string \<Rightarrow> nat option" where
  "dec_value n [] = Some n"
| "dec_value n (c # cs) =
     (case digit_of c of None \<Rightarrow> None | Some d \<Rightarrow> dec_value (10 * n + d) cs)"

definition sample_int :: "string \<Rightarrow> int option" where
  "sample_int s = (if s = [] then None else map_option int (dec_value 0 s))"

definition sample_float :: "string \<Rightarrow> real option" where
  "sample_float = map_of [(''37.4'', 37.4), (''-122.08'', - 122.08)]"

section \<open>Evaluation on concrete inputs\<close>

lemmas fetch_defs = get_ip_geolocation_def url_for_def params_for_def str_params_def py_repr_def
  try_request_def raise_for_status_def response_json_def emit_def Let_def API_KEY_def
  w0_def answering_def healthy_def timing_out_def unreachable_def garbled_def

text \<open>The colours entered in the concrete runs, in lower case.\<close>

lemma py_lower_samples:
  "py_lower ''RED'' = ''red''"
  "py_lower ''Pink'' = ''pink''"
  "py_lower ''green'' = ''green''"
  "py_lower ''red'' = ''red''"
  by code_simp+

text \<open>The no-break space and the next-line character are stripped as white space is.\<close>

lemma py_strip_latin1:
  "py_strip (CHR 0xA0 # ''red'' @ [CHR 0x85]) = ''red''"
  by code_simp

lemmas session_defs = fetch_self_def fetch_target_def store_result_def display_details_def
  detail_lines_def dict_get_def sample_record_def py_input_def py_strip_def is_space_def
  py_lower_samples choice_1_def choice_2_def choice_3_def choice_4_def choice_5_def
  ask_options_and_map_def zoom_or_default_def color_or_default_def marker_colors_def
  create_map_def save_to_file_def get_valid_input.simps sample_int_def sample_float_def
  digit_of_def slot_after_def

section \<open>The retry configuration\<close>

text \<open>
  The retries run inside \<^verbatim>\<open>session.get\<close>, in the adapter \<^verbatim>\<open>setup_session\<close> mounts; the
  program only configures them. The statuses it lists for a retry are five, not every
  5xx status.
\<close>

lemma status_forcelist_members:
  "set (status_forcelist setup_session_retries) = {429, 500, 502, 503, 504} \<and>
   501 \<notin> set (status_forcelist setup_session_retries) \<and>
   total setup_session_retries = 3"
  by (simp add: setup_session_retries_def)

section \<open>The cache\<close>

lemma cache_key_unfold:
  "url_for ip @ str_params (params_for k) = cache_key k ip"
  by (simp add: cache_key_def)

lemma get_ip_geolocation_hit:
  assumes "geo_cache w (cache_key k ip) = Some v"
  shows "get_ip_geolocation k s ip w = (Inr v, emit (Print ''Using cached data...'') w)"
  using assms by (simp add: get_ip_geolocation_def cache_key_def Let_def)

lemma get_ip_geolocation_store:
  assumes "geo_cache w (cache_key k ip) = None"
    and "try_request (s (sent w) (url_for ip, params_for k)) = Inr v"
  shows "get_ip_geolocation k s ip w =
           (Inr v, w\<lparr>sent := sent w @ [(url_for ip, params_for k)],
                     geo_cache := (geo_cache w)(cache_key k ip \<mapsto> v)\<rparr>)"
  using assms by (simp add: get_ip_geolocation_def cache_key_unfold Let_def)

lemma get_ip_geolocation_miss:
  assumes "geo_cache w (cache_key k ip) = None"
    and "try_request (s (sent w) (url_for ip, params_for k)) = Inl e"
  shows "get_ip_geolocation k s ip w =
           handle_request_error e (w\<lparr>sent := sent w @ [(url_for ip, params_for k)]\<rparr>)"
  using assms by (simp add: get_ip_geolocation_def cache_key_unfold Let_def)

text \<open>A lookup never removes an entry of the cache and never overwrites one.\<close>

lemma get_ip_geolocation_keeps:
  assumes "geo_cache w key = Some v"
  shows "geo_cache (snd (get_ip_geolocation k s ip w)) key = Some v"
proof (cases "geo_cache w (cache_key k ip)")
  case (Some u)
  then show ?thesis
    using assms by (simp add: get_ip_geolocation_hit emit_def)
next
  case None
  then have ne: "key \<noteq> cache_key k ip"
    using assms by auto
  show ?thesis
  proof (cases "try_request (s (sent w) (url_for ip, params_for k))")
    case (Inl e)
    show ?thesis
      using get_ip_geolocation_miss [of w k ip s e] None Inl assms
      by (simp add: handle_request_error_frame)
  next
    case (Inr u)
    show ?thesis
      using get_ip_geolocation_store [of w k ip s u] None Inr assms ne by simp
  qed
qed

lemma lookups_keeps:
  "geo_cache w key = Some v \<Longrightarrow> geo_cache (lookups k cs w) key = Some v"
proof (induction cs arbitrary: w)
  case Nil
  then show ?case by simp
next
  case (Cons c cs)
  obtain s ip where c: "c = (s, ip)" by (cases c)
  show ?case
    unfolding c lookups.simps
    by (rule Cons.IH) (rule get_ip_geolocation_keeps [OF Cons.prems])
qed

text \<open>
  C1. Once a lookup has fetched a key from the provider with success (its one call
  is the only addition to the calls sent), every later lookup whose key is the same,
  after any number of lookups in between and whatever the provider would answer now,
  returns the value stored by that first call, sends nothing and leaves the cache as
  it is.
\<close>

theorem cached_key_never_refetched:
  assumes "geo_cache w (cache_key k ip) = None"
    and "try_request (s (sent w) (url_for ip, params_for k)) = Inr v"
    and "cache_key k ip' = cache_key k ip"
    and "w2 = lookups k cs (snd (get_ip_geolocation k s ip w))"
  shows "fst (get_ip_geolocation k s' ip' w2) = Inr v \<and>
         sent (snd (get_ip_geolocation k s' ip' w2)) = sent w2 \<and>
         geo_cache (snd (get_ip_geolocation k s' ip' w2)) = geo_cache w2 \<and>
         sent (snd (get_ip_geolocation k s ip w)) = sent w @ [(url_for ip, params_for k)]"
proof -
  let ?w1 = "snd (get_ip_geolocation k s ip w)"
  have w1: "get_ip_geolocation k s ip w =
      (Inr v, w\<lparr>sent := sent w @ [(url_for ip, params_for k)],
                geo_cache := (geo_cache w)(cache_key k ip \<mapsto> v)\<rparr>)"
    using assms(1,2) by (simp add: get_ip_geolocation_store)
  have "geo_cache ?w1 (cache_key k ip) = Some v"
    by (simp add: w1)
  then have "geo_cache w2 (cache_key k ip') = Some v"
    unfolding assms(3,4) by (rule lookups_keeps)
  then have "get_ip_geolocation k s' ip' w2 = (Inr v, emit (Print ''Using cached data...'') w2)"
    by (rule get_ip_geolocation_hit)
  then show ?thesis
    by (simp add: emit_def w1)
qed

theorem cached_key_never_refetched_witness:
  "geo_cache w0 (cache_key API_KEY None) = None \<and>
   try_request (healthy (sent w0) (url_for None, params_for API_KEY)) = Inr sample_record \<and>
   cache_key API_KEY (Some []) = cache_key API_KEY None \<and>
   fst (get_ip_geolocation API_KEY timing_out (Some [])
          (lookups API_KEY [(timing_out, Some ''8.8.8.8'')]
             (snd (get_ip_geolocation API_KEY healthy None w0)))) = Inr sample_record \<and>
   sent (snd (get_ip_geolocation API_KEY timing_out (Some [])
          (lookups API_KEY [(timing_out, Some ''8.8.8.8'')]
             (snd (get_ip_geolocation API_KEY healthy None w0))))) =
     sent (lookups API_KEY [(timing_out, Some ''8.8.8.8'')]
             (snd (get_ip_geolocation API_KEY healthy None w0)))"
proof -
  have a: "geo_cache w0 (cache_key API_KEY None) = None"
    by (simp add: w0_def)
  have b: "try_request (healthy (sent w0) (url_for None, params_for API_KEY)) = Inr sample_record"
    by (simp add: healthy_def answering_def try_request_def raise_for_status_def
        response_json_def)
  have c: "cache_key API_KEY (Some []) = cache_key API_KEY None"
    by (simp add: cache_key_def url_for_def)
  show ?thesis
    using a b c cached_key_never_refetched [of w0 API_KEY None healthy sample_record "Some []" _
        "[(timing_out, Some ''8.8.8.8'')]" timing_out, OF a b c refl]
    by simp
qed

section \<open>Failed and successful requests\<close>

text \<open>
  C3. When a lookup goes to the provider and the request fails, with whatever
  exception, the cache is left exactly as it was, so the next lookup of the same
  target goes to the provider again: both calls are in the list of the calls sent.
\<close>

theorem failure_leaves_cache_and_is_refetched:
  assumes "geo_cache w (cache_key k ip) = None"
    and "try_request (s (sent w) (url_for ip, params_for k)) = Inl e"
  shows "geo_cache (snd (get_ip_geolocation k s ip w)) = geo_cache w \<and>
         sent (snd (get_ip_geolocation k s ip w)) = sent w @ [(url_for ip, params_for k)] \<and>
         sent (snd (get_ip_geolocation k s' ip (snd (get_ip_geolocation k s ip w)))) =
           sent (snd (get_ip_geolocation k s ip w)) @ [(url_for ip, params_for k)]"
proof -
  let ?w1 = "snd (get_ip_geolocation k s ip w)"
  have eq: "get_ip_geolocation k s ip w =
      handle_request_error e (w\<lparr>sent := sent w @ [(url_for ip, params_for k)]\<rparr>)"
    by (rule get_ip_geolocation_miss) (use assms in auto)
  have c: "geo_cache ?w1 = geo_cache w"
    by (simp add: eq handle_request_error_frame)
  have s1: "sent ?w1 = sent w @ [(url_for ip, params_for k)]"
    by (simp add: eq handle_request_error_frame)
  have miss: "geo_cache ?w1 (cache_key k ip) = None"
    by (simp add: c assms(1))
  have "sent (snd (get_ip_geolocation k s' ip ?w1)) = sent ?w1 @ [(url_for ip, params_for k)]"
  proof (cases "try_request (s' (sent ?w1) (url_for ip, params_for k))")
    case (Inl e')
    show ?thesis
      using get_ip_geolocation_miss [of ?w1 k ip s' e', OF miss Inl]
      by (simp add: handle_request_error_frame)
  next
    case (Inr v)
    show ?thesis
      using get_ip_geolocation_store [of ?w1 k ip s' v, OF miss Inr] by simp
  qed
  with c s1 show ?thesis by simp
qed

theorem failure_leaves_cache_and_is_refetched_witness:
  "geo_cache w0 (cache_key API_KEY (Some ''8.8.8.8'')) = None \<and>
   try_request (timing_out (sent w0) (url_for (Some ''8.8.8.8''), params_for API_KEY)) =
     Inl (Timeout ''read timed out'') \<and>
   geo_cache (snd (get_ip_geolocation API_KEY timing_out (Some ''8.8.8.8'') w0)) = geo_cache w0 \<and>
   sent (snd (get_ip_geolocation API_KEY healthy (Some ''8.8.8.8'')
                (snd (get_ip_geolocation API_KEY timing_out (Some ''8.8.8.8'') w0)))) =
     [(''https://ipinfo.io/8.8.8.8/json'', [(''token'', ''20020022f148d7'')]),
      (''https://ipinfo.io/8.8.8.8/json'', [(''token'', ''20020022f148d7'')])]"
proof -
  have a: "geo_cache w0 (cache_key API_KEY (Some ''8.8.8.8'')) = None"
    by (simp add: w0_def)
  have b: "try_request (timing_out (sent w0) (url_for (Some ''8.8.8.8''), params_for API_KEY)) =
     Inl (Timeout ''read timed out'')"
    by (simp add: timing_out_def try_request_def)
  have c: "sent w0 = []" by (simp add: w0_def)
  show ?thesis
    using a b failure_leaves_cache_and_is_refetched
      [of w0 API_KEY "Some ''8.8.8.8''" timing_out "Timeout ''read timed out''" healthy, OF a b]
    by (simp add: c url_for_def params_for_def API_KEY_def)
qed

text \<open>
  C9. When a lookup goes to the provider and the answer has a 2xx status and a body
  that decodes, the lookup returns the decoded value, whatever it is (also a record
  with none of the expected fields), and stores it in the cache under the key of the
  request.
\<close>

theorem parsed_body_is_success:
  assumes "geo_cache w (cache_key k ip) = None"
    and "s (sent w) (url_for ip, params_for k) = Returns r"
    and "200 \<le> status_code r" and "status_code r < 300"
    and "body_json r = Inr j"
  shows "get_ip_geolocation k s ip w =
           (Inr j, w\<lparr>sent := sent w @ [(url_for ip, params_for k)],
                     geo_cache := (geo_cache w)(cache_key k ip \<mapsto> j)\<rparr>)"
proof -
  have "try_request (s (sent w) (url_for ip, params_for k)) = Inr j"
    using assms(2-5) by (simp add: try_request_def raise_for_status_def response_json_def)
  with assms(1) show ?thesis
    by (simp add: get_ip_geolocation_store)
qed

theorem parsed_body_is_success_witness:
  "geo_cache w0 (cache_key API_KEY None) = None \<and>
   get_ip_geolocation API_KEY (answering 200 (JObj [])) None w0 =
     (Inr (JObj []),
      w0\<lparr>sent := [(''https://ipinfo.io/json'', [(''token'', ''20020022f148d7'')])],
          geo_cache := [cache_key API_KEY None \<mapsto> JObj []]\<rparr>)"
proof -
  have a: "geo_cache w0 (cache_key API_KEY None) = None"
    by (simp add: w0_def)
  have c: "sent w0 = []" "geo_cache w0 = Map.empty" by (simp_all add: w0_def)
  show ?thesis
    using a parsed_body_is_success [of w0 API_KEY None "answering 200 (JObj [])"
        "\<lparr>status_code = 200, body_json = Inr (JObj [])\<rparr>" "JObj []", OF a]
    by (simp add: c answering_def url_for_def params_for_def API_KEY_def)
qed

lemma handle_request_error_notice:
  "is_request_exception e \<Longrightarrow>
     handle_request_error e w =
       (Inr JNull,
        w\<lparr>stdout := stdout w @
            [case e of
               Timeout m \<Rightarrow> Print ''Error: Request timed out. Please check your connection.''
             | HTTPError c \<Rightarrow> PrintExn ''HTTP error occurred: '' e
             | _ \<Rightarrow> PrintExn ''Request error: '' e]\<rparr>)"
  by (cases e) (simp_all add: emit_def)

lemma failing_raises:
  assumes "failing g"
  shows "\<exists>e. (case g of
                Raises x \<Rightarrow> e = x
              | Returns r \<Rightarrow>
                  if 400 \<le> status_code r \<and> status_code r < 600
                  then e = HTTPError (status_code r)
                  else body_json r = Inl e) \<and>
             is_request_exception e \<and> try_request g = Inl e"
proof (cases g)
  case (Raises x)
  then show ?thesis
    using assms by (simp add: failing_def try_request_def)
next
  case (Returns r)
  show ?thesis
  proof (cases "400 \<le> status_code r \<and> status_code r < 600")
    case True
    then show ?thesis
      using Returns by (simp add: try_request_def raise_for_status_def)
  next
    case False
    then obtain e where "body_json r = Inl e" "is_request_exception e"
      using assms Returns by (auto simp: failing_def split: sum.splits)
    then show ?thesis
      using Returns False
      by (auto simp: try_request_def raise_for_status_def response_json_def)
  qed
qed

text \<open>
  C4 as it is stated does not hold. The caller receives the same value, \<^verbatim>\<open>None\<close>, after
  a timeout, a 404, a connection failure and a body that does not decode, so the value
  does not tell the kinds of failure apart; and a status outside 2xx that
  \<^verbatim>\<open>raise_for_status\<close> accepts, here 304, is no failure at all when its body decodes.
\<close>

theorem failure_value_is_untyped:
  "fst (get_ip_geolocation API_KEY timing_out None w0) = Inr JNull \<and>
   fst (get_ip_geolocation API_KEY (answering 404 sample_record) None w0) = Inr JNull \<and>
   fst (get_ip_geolocation API_KEY unreachable None w0) = Inr JNull \<and>
   fst (get_ip_geolocation API_KEY garbled None w0) = Inr JNull \<and>
   fst (get_ip_geolocation API_KEY (answering 304 sample_record) None w0) = Inr sample_record"
  by (simp add: fetch_defs)

text \<open>
  C4, amended. When a lookup goes to the provider and the request fails with an
  exception of the requests library (raised by the call: a timeout, a connection
  failure; by the status check: a 4xx or 5xx status; by the decoding of the body),
  nothing is raised. The lookup sends its one call, prints exactly one notice, the one
  of the first handler the exception's class matches (the time-out notice for a
  \<^verbatim>\<open>Timeout\<close>, the HTTP notice with the exception for an \<^verbatim>\<open>HTTPError\<close>, the request notice
  with the exception for any other \<^verbatim>\<open>RequestException\<close>), and returns \<^verbatim>\<open>None\<close>; the
  session goes on with the slot it had.
\<close>

theorem request_failure_reported_not_raised:
  assumes "geo_cache w (cache_key k ip) = None"
    and "failing (s (sent w) (url_for ip, params_for k))"
  shows "\<exists>e. (case s (sent w) (url_for ip, params_for k) of
                Raises x \<Rightarrow> e = x
              | Returns r \<Rightarrow>
                  if 400 \<le> status_code r \<and> status_code r < 600
                  then e = HTTPError (status_code r)
                  else body_json r = Inl e) \<and>
             is_request_exception e \<and>
             get_ip_geolocation k s ip w =
               (Inr JNull,
                w\<lparr>sent := sent w @ [(url_for ip, params_for k)],
                   stdout := stdout w @
                     [case e of
                        Timeout m \<Rightarrow>
                          Print ''Error: Request timed out. Please check your connection.''
                      | HTTPError c \<Rightarrow> PrintExn ''HTTP error occurred: '' e
                      | _ \<Rightarrow> PrintExn ''Request error: '' e]\<rparr>) \<and>
             store_result slot (get_ip_geolocation k s ip w) =
               Continue slot (snd (get_ip_geolocation k s ip w))"
proof -
  let ?g = "s (sent w) (url_for ip, params_for k)"
  obtain e where src: "case ?g of
                Raises x \<Rightarrow> e = x
              | Returns r \<Rightarrow>
                  if 400 \<le> status_code r \<and> status_code r < 600
                  then e = HTTPError (status_code r)
                  else body_json r = Inl e"
    and h: "is_request_exception e"
    and e: "try_request ?g = Inl e"
    using failing_raises [OF assms(2)] by blast
  have g: "get_ip_geolocation k s ip w =
      (Inr JNull,
       w\<lparr>sent := sent w @ [(url_for ip, params_for k)],
          stdout := stdout w @
            [case e of
               Timeout m \<Rightarrow> Print ''Error: Request timed out. Please check your connection.''
             | HTTPError c \<Rightarrow> PrintExn ''HTTP error occurred: '' e
             | _ \<Rightarrow> PrintExn ''Request error: '' e]\<rparr>)"
    using get_ip_geolocation_miss [of w k ip s e] assms(1) e
      handle_request_error_notice [OF h, of "w\<lparr>sent := sent w @ [(url_for ip, params_for k)]\<rparr>"]
    by simp
  have "store_result slot (get_ip_geolocation k s ip w) =
      Continue slot (snd (get_ip_geolocation k s ip w))"
    by (simp add: g store_result_def)
  with src h g show ?thesis
    by blast
qed

theorem request_failure_reported_not_raised_witness:
  "failing (timing_out (sent w0) (url_for None, params_for API_KEY)) \<and>
   failing (answering 404 sample_record (sent w0) (url_for None, params_for API_KEY)) \<and>
   failing (unreachable (sent w0) (url_for None, params_for API_KEY)) \<and>
   failing (garbled (sent w0) (url_for None, params_for API_KEY)) \<and>
   get_ip_geolocation API_KEY timing_out None w0 =
     (Inr JNull,
      w0\<lparr>sent := [(''https://ipinfo.io/json'', [(''token'', ''20020022f148d7'')])],
          stdout := [Print ''Error: Request timed out. Please check your connection.'']\<rparr>) \<and>
   get_ip_geolocation API_KEY (answering 404 sample_record) None w0 =
     (Inr JNull,
      w0\<lparr>sent := [(''https://ipinfo.io/json'', [(''token'', ''20020022f148d7'')])],
          stdout := [PrintExn ''HTTP error occurred: '' (HTTPError 404)]\<rparr>) \<and>
   get_ip_geolocation API_KEY unreachable None w0 =
     (Inr JNull,
      w0\<lparr>sent := [(''https://ipinfo.io/json'', [(''token'', ''20020022f148d7'')])],
          stdout := [PrintExn ''Request error: '' (RequestException ''connection refused'')]\<rparr>) \<and>
   get_ip_geolocation API_KEY garbled None w0 =
     (Inr JNull,
      w0\<lparr>sent := [(''https://ipinfo.io/json'', [(''token'', ''20020022f148d7'')])],
          stdout := [PrintExn ''Request error: '' (RequestException ''Expecting value'')]\<rparr>) \<and>
   store_result sample_record (get_ip_geolocation API_KEY garbled None w0) =
     Continue sample_record (snd (get_ip_geolocation API_KEY garbled None w0))"
proof -
  have a: "geo_cache w0 (cache_key API_KEY None) = None"
    by (simp add: w0_def)
  have b1: "failing (timing_out (sent w0) (url_for None, params_for API_KEY))"
    by (simp add: timing_out_def failing_def)
  have b2: "failing (answering 404 sample_record (sent w0) (url_for None, params_for API_KEY))"
    by (simp add: answering_def failing_def)
  have b3: "failing (unreachable (sent w0) (url_for None, params_for API_KEY))"
    by (simp add: unreachable_def failing_def)
  have b4: "failing (garbled (sent w0) (url_for None, params_for API_KEY))"
    by (simp add: garbled_def failing_def)
  have c: "sent w0 = []" "stdout w0 = []" "url_for None = ''https://ipinfo.io/json''"
    "params_for API_KEY = [(''token'', ''20020022f148d7'')]"
    by (simp_all add: w0_def url_for_def params_for_def API_KEY_def)
  have t1: "timing_out [] (''https://ipinfo.io/json'', [(''token'', ''20020022f148d7'')]) =
      Raises (Timeout ''read timed out'')"
    by (simp add: timing_out_def)
  have t2: "answering 404 sample_record [] (''https://ipinfo.io/json'', [(''token'', ''20020022f148d7'')]) =
      Returns \<lparr>status_code = 404, body_json = Inr sample_record\<rparr>"
    by (simp add: answering_def)
  have t3: "unreachable [] (''https://ipinfo.io/json'', [(''token'', ''20020022f148d7'')]) =
      Raises (RequestException ''connection refused'')"
    by (simp add: unreachable_def)
  have t4: "garbled [] (''https://ipinfo.io/json'', [(''token'', ''20020022f148d7'')]) =
      Returns \<lparr>status_code = 200, body_json = Inl (RequestException ''Expecting value'')\<rparr>"
    by (simp add: garbled_def)
  show ?thesis
    using b1 b2 b3 b4
      request_failure_reported_not_raised [of w0 API_KEY None timing_out sample_record, OF a b1]
      request_failure_reported_not_raised
        [of w0 API_KEY None "answering 404 sample_record" sample_record, OF a b2]
      request_failure_reported_not_raised [of w0 API_KEY None unreachable sample_record, OF a b3]
      request_failure_reported_not_raised [of w0 API_KEY None garbled sample_record, OF a b4]
    by (simp add: c t1 t2 t3 t4 store_result_def)
qed

section \<open>Cache keys and the access token\<close>

text \<open>
  C7 as it is stated does not hold: the lookup of the caller's own address and the
  lookup of the empty text, which choice 2 passes when the user enters nothing, are
  different targets with one cache key.
\<close>

theorem self_and_empty_target_share_key:
  "(None :: string option) \<noteq> Some [] \<and> cache_key API_KEY None = cache_key API_KEY (Some [])"
  by (simp add: cache_key_def url_for_def)

text \<open>
  C7, amended. With one access token, two targets have the same cache key exactly
  when they are the same once the empty text is read as no target: different
  addresses have different keys, the caller's own address and any address written out
  have different keys, and equal requests have equal keys.
\<close>

theorem cache_key_injective_on_effective_targets:
  "(cache_key k a = cache_key k b) = (effective_target a = effective_target b)"
proof -
  have self_ne: "''https://ipinfo.io/json'' \<noteq> ''https://ipinfo.io/'' @ x @ ''/json''"
    for x :: string
  proof
    assume "''https://ipinfo.io/json'' = ''https://ipinfo.io/'' @ x @ ''/json''"
    then have "length ''https://ipinfo.io/json'' = length (''https://ipinfo.io/'' @ x @ ''/json'')"
      by (rule arg_cong)
    then show False by simp
  qed
  have url: "(url_for a = url_for b) = (effective_target a = effective_target b)"
    using self_ne self_ne [symmetric]
    by (auto simp: url_for_def effective_target_def split: option.splits)
  show ?thesis
    by (simp add: cache_key_def url)
qed

theorem cache_key_injective_on_effective_targets_witness:
  "cache_key API_KEY (Some ''8.8.8.8'') \<noteq> cache_key API_KEY None \<and>
   cache_key API_KEY (Some ''8.8.8.8'') \<noteq> cache_key API_KEY (Some ''8.8.4.4'')"
  using cache_key_injective_on_effective_targets [of API_KEY "Some ''8.8.8.8''" None]
    cache_key_injective_on_effective_targets [of API_KEY "Some ''8.8.8.8''" "Some ''8.8.4.4''"]
  by (simp add: effective_target_def)

text \<open>
  C8 as it is stated does not hold. The program takes no configuration: started on
  the input 1, 6 it goes through the menu loop and ends normally, having sent the
  token written at line 24. And a client whose token is empty does not refuse to
  work: it sends the request without the parameter and returns the answer.
\<close>

theorem hardcoded_token_and_no_startup_check:
  "fst (main sample_int sample_float healthy (w0\<lparr>stdin := [''1'', ''6'']\<rparr>)) = None \<and>
   sent (snd (main sample_int sample_float healthy (w0\<lparr>stdin := [''1'', ''6'']\<rparr>))) =
     [(''https://ipinfo.io/json'', [(''token'', ''20020022f148d7'')])] \<and>
   get_ip_geolocation [] healthy None w0 =
     (Inr sample_record,
      w0\<lparr>sent := [(''https://ipinfo.io/json'', [])],
          geo_cache := [''https://ipinfo.io/json{}'' \<mapsto> sample_record]\<rparr>)"
  by (simp add: main_def main_loop.simps main_body_def display_menu_def menu_lines_def
      fetch_defs session_defs)

text \<open>
  C8, amended. The access token is the constant of line 24; a lookup that goes to the
  provider sends it as the parameter \<^verbatim>\<open>token\<close> of its one call, and with an empty token
  it sends the call without that parameter.
\<close>

theorem token_is_constant_and_optional:
  assumes "geo_cache w (cache_key k ip) = None"
  shows "sent (snd (get_ip_geolocation k s ip w)) =
           sent w @ [(url_for ip, if k = [] then [] else [(''token'', k)])] \<and>
         params_for API_KEY = [(''token'', ''20020022f148d7'')]"
proof -
  have ps: "params_for k = (if k = [] then [] else [(''token'', k)])"
    by (simp add: params_for_def)
  have "sent (snd (get_ip_geolocation k s ip w)) = sent w @ [(url_for ip, params_for k)]"
  proof (cases "try_request (s (sent w) (url_for ip, params_for k))")
    case (Inl e)
    show ?thesis
      using get_ip_geolocation_miss [of w k ip s e] assms Inl
      by (simp add: handle_request_error_frame)
  next
    case (Inr v)
    show ?thesis
      using get_ip_geolocation_store [of w k ip s v] assms Inr by simp
  qed
  then show ?thesis
    by (simp add: ps params_for_def API_KEY_def)
qed

theorem token_is_constant_and_optional_witness:
  "geo_cache w0 (cache_key API_KEY None) = None \<and>
   sent (snd (get_ip_geolocation API_KEY healthy None w0)) =
     [(''https://ipinfo.io/json'', [(''token'', ''20020022f148d7'')])] \<and>
   geo_cache w0 (cache_key [] None) = None \<and>
   sent (snd (get_ip_geolocation [] healthy None w0)) = [(''https://ipinfo.io/json'', [])]"
proof -
  have a: "geo_cache w0 (cache_key k None) = None" for k
    by (simp add: w0_def)
  have c: "sent w0 = []" by (simp add: w0_def)
  show ?thesis
    using a token_is_constant_and_optional [of w0 API_KEY None healthy, OF a]
      token_is_constant_and_optional [of w0 "[]" None healthy, OF a]
    by (simp add: c url_for_def API_KEY_def)
qed

section \<open>The slot of the session\<close>

lemma slot_after_Some: "slot_after st = Some slot' \<Longrightarrow> \<exists>w'. st = Continue slot' w'"
  by (cases st) (simp_all add: slot_after_def)

lemma store_result_slot:
  "store_result slot res = Continue slot' w' \<Longrightarrow>
     \<exists>v. fst res = Inr v \<and> slot' = (if truthy v then v else slot)"
  by (cases res) (auto simp: store_result_def split: sum.splits if_splits prod.splits)

lemma choice_3_slot: "choice_3 slot w = Continue slot' w' \<Longrightarrow> slot' = slot"
  by (auto simp: choice_3_def split: if_splits prod.splits sum.splits)

lemma choice_4_slot: "choice_4 slot w = Continue slot' w' \<Longrightarrow> slot' = slot"
  by (auto simp: choice_4_def split: if_splits)

lemma ask_options_and_map_slot:
  "ask_options_and_map ic lat lon slot w = Continue slot' w' \<Longrightarrow> slot' = slot"
  by (auto simp: ask_options_and_map_def split: prod.splits sum.splits)

lemma choice_5_slot: "choice_5 ic fc slot w = Continue slot' w' \<Longrightarrow> slot' = slot"
  by (auto simp: choice_5_def Let_def dest: ask_options_and_map_slot
      split: if_splits json.splits option.splits)

text \<open>
  While the session runs, the slot is empty or holds a record with at least one field:
  any other true value ends the session in \<^verbatim>\<open>display_details\<close>, right after the store.
\<close>

lemma store_result_record:
  "store_result slot res = Continue slot' w' \<Longrightarrow>
     slot' = slot \<or> (\<exists>kvs. kvs \<noteq> [] \<and> slot' = JObj kvs)"
  by (cases res)
     (auto simp: store_result_def display_details_def Let_def
       split: sum.splits if_splits prod.splits json.splits)

lemma main_body_slot_shape:
  assumes "main_body ic fc s slot w = Continue slot' w'"
  shows "slot' = slot \<or> (\<exists>kvs. kvs \<noteq> [] \<and> slot' = JObj kvs)"
proof -
  obtain r w1 where m: "display_menu ic w = (r, w1)"
    by (cases "display_menu ic w")
  from assms m obtain c where r: "r = Inr c"
    by (cases r) (simp_all add: main_body_def)
  show ?thesis
    using assms m r
      store_result_record [of slot "fetch_self s w1" slot' w']
      store_result_record [of slot "fetch_target s w1" slot' w']
      choice_3_slot [of slot w1 slot' w'] choice_4_slot [of slot w1 slot' w']
      choice_5_slot [of ic fc slot w1 slot' w']
    by (auto simp: main_body_def choice_1_def choice_2_def split: if_splits)
qed

text \<open>
  C5 as it is stated does not hold: a lookup that succeeds with an empty record (a 2xx
  answer whose body decodes, returned and stored in the cache) leaves the slot with
  the record it had.
\<close>

theorem empty_record_is_not_stored:
  "fst (fetch_self (answering 200 (JObj [])) w0) = Inr (JObj []) \<and>
   geo_cache (snd (fetch_self (answering 200 (JObj [])) w0)) (cache_key API_KEY None) =
     Some (JObj []) \<and>
   slot_after (choice_1 (answering 200 (JObj [])) sample_record w0) = Some sample_record"
  by (simp add: fetch_defs session_defs cache_key_def)

text \<open>
  C5, amended. After choice 1 or 2 the slot holds the value the lookup returned when
  that value is true in Python's sense (a record with at least one field), and the
  value it held before otherwise: after a failed lookup, which returns \<^verbatim>\<open>None\<close>, and
  after a lookup that returns an empty or false value. Choices 3, 4 and 5 leave the
  slot as it is.
\<close>

theorem slot_follows_truthy_lookup:
  "(slot_after (choice_1 s slot w) = Some slot' \<longrightarrow>
      (\<exists>v. fst (fetch_self s w) = Inr v \<and> slot' = (if truthy v then v else slot))) \<and>
   (slot_after (choice_2 s slot w) = Some slot' \<longrightarrow>
      (\<exists>v. fst (fetch_target s w) = Inr v \<and> slot' = (if truthy v then v else slot))) \<and>
   (slot_after (choice_3 slot w) = Some slot' \<longrightarrow> slot' = slot) \<and>
   (slot_after (choice_4 slot w) = Some slot' \<longrightarrow> slot' = slot) \<and>
   (slot_after (choice_5 ic fc slot w) = Some slot' \<longrightarrow> slot' = slot)"
proof (intro conjI impI)
  assume "slot_after (choice_1 s slot w) = Some slot'"
  then obtain w' where "store_result slot (fetch_self s w) = Continue slot' w'"
    unfolding choice_1_def by (blast dest: slot_after_Some)
  then show "\<exists>v. fst (fetch_self s w) = Inr v \<and> slot' = (if truthy v then v else slot)"
    by (rule store_result_slot)
next
  assume "slot_after (choice_2 s slot w) = Some slot'"
  then obtain w' where "store_result slot (fetch_target s w) = Continue slot' w'"
    unfolding choice_2_def by (blast dest: slot_after_Some)
  then show "\<exists>v. fst (fetch_target s w) = Inr v \<and> slot' = (if truthy v then v else slot)"
    by (rule store_result_slot)
next
  assume "slot_after (choice_3 slot w) = Some slot'"
  then show "slot' = slot"
    by (blast dest: slot_after_Some choice_3_slot)
next
  assume "slot_after (choice_4 slot w) = Some slot'"
  then show "slot' = slot"
    by (blast dest: slot_after_Some choice_4_slot)
next
  assume "slot_after (choice_5 ic fc slot w) = Some slot'"
  then show "slot' = slot"
    by (blast dest: slot_after_Some choice_5_slot)
qed

theorem slot_follows_truthy_lookup_witness:
  "slot_after (choice_1 healthy JNull w0) = Some sample_record \<and>
   fst (fetch_self healthy w0) = Inr sample_record \<and>
   slot_after (choice_1 healthy sample_record (w0\<lparr>stdin := [''12'', ''green'']\<rparr>)) =
     Some sample_record \<and>
   slot_after (choice_2 healthy sample_record (w0\<lparr>stdin := [''12'', ''green'']\<rparr>)) =
     Some sample_record \<and>
   slot_after (choice_3 sample_record (w0\<lparr>stdin := [''12'', ''green'']\<rparr>)) =
     Some sample_record \<and>
   slot_after (choice_4 sample_record (w0\<lparr>stdin := [''12'', ''green'']\<rparr>)) =
     Some sample_record \<and>
   slot_after (choice_5 sample_int sample_float sample_record
                 (w0\<lparr>stdin := [''12'', ''green'']\<rparr>)) = Some sample_record"
proof -
  let ?w = "w0\<lparr>stdin := [''12'', ''green'']\<rparr>"
  have h0: "slot_after (choice_1 healthy JNull w0) = Some sample_record"
    by (simp add: fetch_defs session_defs)
  have v0: "fst (fetch_self healthy w0) = Inr sample_record"
    by (simp add: fetch_defs session_defs)
  have h1: "slot_after (choice_1 healthy sample_record ?w) = Some sample_record"
    by (simp add: fetch_defs session_defs)
  have h2: "slot_after (choice_2 healthy sample_record ?w) = Some sample_record"
    by (simp add: fetch_defs session_defs)
  have h3: "slot_after (choice_3 sample_record ?w) = Some sample_record"
    by (simp add: fetch_defs session_defs)
  have h4: "slot_after (choice_4 sample_record ?w) = Some sample_record"
    by (simp add: fetch_defs session_defs)
  have h5: "slot_after (choice_5 sample_int sample_float sample_record ?w) = Some sample_record"
    by (simp add: fetch_defs session_defs)
  show ?thesis
    using h0 v0 h1 h2 h3 h4 h5
      slot_follows_truthy_lookup [of healthy JNull w0 sample_record sample_int sample_float]
      slot_follows_truthy_lookup [of healthy sample_record "?w" sample_record sample_int sample_float]
    by simp
qed

section \<open>The options of the map\<close>

lemma ask_options_and_map_result:
  assumes "get_valid_input ''Enter zoom level (1-18, default 10): '' [] ic w = (Inr z, w1)"
    and "stdin w1 = line # rest"
    and "c = py_lower (py_strip line)"
  shows "ask_options_and_map ic lat lon slot w =
     Continue slot
       (w1\<lparr>stdin := rest,
           stdout := stdout w1 @
             (if 1 \<le> z \<and> z \<le> 18 then []
              else [Print ''Zoom level out of range. Using default (10).'']) @
             [Print (CHR 0x0A # ''Available marker colors: red, blue, green, purple, orange''),
              Prompt ''Enter marker color (default blue): ''] @
             (if c \<in> set marker_colors then []
              else [Print ''Invalid color. Using default (blue).'']) @
             [CreateMap lat lon (if 1 \<le> z \<and> z \<le> 18 then z else 10)
                (if c \<in> set marker_colors then c else ''blue'') slot]\<rparr>)"
  using assms
  by (simp add: ask_options_and_map_def zoom_or_default_def color_or_default_def py_input_def
      create_map_def emit_def)

text \<open>
  C6 as it is stated does not hold for the colour: the text RED is not one of the five
  colours, and the map is drawn with red, without a notice.
\<close>

theorem upper_case_color_is_lowered:
  "''RED'' \<notin> set marker_colors \<and>
   choice_5 sample_int sample_float sample_record (w0\<lparr>stdin := [''12'', ''RED'']\<rparr>) =
     Continue sample_record
       (w0\<lparr>stdin := [],
           stdout :=
             [Prompt ''Enter zoom level (1-18, default 10): '',
              Print (CHR 0x0A # ''Available marker colors: red, blue, green, purple, orange''),
              Prompt ''Enter marker color (default blue): '',
              CreateMap 37.4 (- 122.08) 12 ''red'' sample_record]\<rparr>)"
  by (simp add: fetch_defs session_defs)

text \<open>
  C6, amended. When the slot holds a record whose \<^verbatim>\<open>loc\<close> gives two numbers, the zoom
  read is \<open>z\<close> and the next line is the colour, the map is created once, with the zoom
  \<open>z\<close> if it lies in 1 to 18 and 10 otherwise, and with the colour as entered, stripped
  of surrounding white space and put in lower case, if that is one of red, blue, green,
  purple and orange, and blue otherwise; each default is announced by its notice, and a
  value that is kept is announced by none.
\<close>

theorem map_options_defaulted:
  assumes "kvs \<noteq> []"
    and "dict_get kvs ''loc'' (JStr []) = JStr s"
    and "py_split (CHR '','') s = [a, b]"
    and "fc a = Some lat" and "fc b = Some lon"
    and "get_valid_input ''Enter zoom level (1-18, default 10): '' [] ic w = (Inr z, w1)"
    and "stdin w1 = line # rest"
    and "c = py_lower (py_strip line)"
  shows "choice_5 ic fc (JObj kvs) w =
     Continue (JObj kvs)
       (w1\<lparr>stdin := rest,
           stdout := stdout w1 @
             (if 1 \<le> z \<and> z \<le> 18 then []
              else [Print ''Zoom level out of range. Using default (10).'']) @
             [Print (CHR 0x0A # ''Available marker colors: red, blue, green, purple, orange''),
              Prompt ''Enter marker color (default blue): ''] @
             (if c \<in> set marker_colors then []
              else [Print ''Invalid color. Using default (blue).'']) @
             [CreateMap lat lon (if 1 \<le> z \<and> z \<le> 18 then z else 10)
                (if c \<in> set marker_colors then c else ''blue'') (JObj kvs)]\<rparr>)"
proof -
  have "choice_5 ic fc (JObj kvs) w = ask_options_and_map ic lat lon (JObj kvs) w"
    using assms(1-5) by (simp add: choice_5_def)
  then show ?thesis
    using ask_options_and_map_result [OF assms(6-8)] by simp
qed

theorem map_options_defaulted_witness:
  "dict_get [(''loc'', JStr ''37.4,-122.08'')] ''loc'' (JStr []) = JStr ''37.4,-122.08'' \<and>
   py_split (CHR '','') ''37.4,-122.08'' = [''37.4'', ''-122.08''] \<and>
   sample_float ''37.4'' = Some 37.4 \<and> sample_float ''-122.08'' = Some (- 122.08) \<and>
   get_valid_input ''Enter zoom level (1-18, default 10): '' [] sample_int
       (w0\<lparr>stdin := [''zoom'', ''25'', '' Pink '']\<rparr>) =
     (Inr 25,
      w0\<lparr>stdin := ['' Pink ''],
          stdout := [Prompt ''Enter zoom level (1-18, default 10): '',
                     Print ''Invalid input! Please enter a valid number.'',
                     Prompt ''Enter zoom level (1-18, default 10): '']\<rparr>) \<and>
   py_lower (py_strip '' Pink '') = ''pink'' \<and>
   choice_5 sample_int sample_float (JObj [(''loc'', JStr ''37.4,-122.08'')])
       (w0\<lparr>stdin := [''zoom'', ''25'', '' Pink '']\<rparr>) =
     Continue (JObj [(''loc'', JStr ''37.4,-122.08'')])
       (w0\<lparr>stdin := [],
           stdout :=
             [Prompt ''Enter zoom level (1-18, default 10): '',
              Print ''Invalid input! Please enter a valid number.'',
              Prompt ''Enter zoom level (1-18, default 10): '',
              Print ''Zoom level out of range. Using default (10).'',
              Print (CHR 0x0A # ''Available marker colors: red, blue, green, purple, orange''),
              Prompt ''Enter marker color (default blue): '',
              Print ''Invalid color. Using default (blue).'',
              CreateMap 37.4 (- 122.08) 10 ''blue'' (JObj [(''loc'', JStr ''37.4,-122.08'')])]\<rparr>)"
proof -
  let ?w = "w0\<lparr>stdin := [''zoom'', ''25'', '' Pink '']\<rparr>"
  let ?w1 = "w0\<lparr>stdin := ['' Pink ''],
          stdout := [Prompt ''Enter zoom level (1-18, default 10): '',
                     Print ''Invalid input! Please enter a valid number.'',
                     Prompt ''Enter zoom level (1-18, default 10): '']\<rparr>"
  have a: "[(''loc'', JStr ''37.4,-122.08'')] \<noteq> []" by simp
  have b: "dict_get [(''loc'', JStr ''37.4,-122.08'')] ''loc'' (JStr []) = JStr ''37.4,-122.08''"
    by (simp add: dict_get_def)
  have c: "py_split (CHR '','') ''37.4,-122.08'' = [''37.4'', ''-122.08'']"
    by simp
  have d: "sample_float ''37.4'' = Some 37.4" "sample_float ''-122.08'' = Some (- 122.08)"
    by (simp_all add: sample_float_def)
  have e: "get_valid_input ''Enter zoom level (1-18, default 10): '' [] sample_int ?w = (Inr 25, ?w1)"
    by (simp add: fetch_defs session_defs)
  have f: "stdin ?w1 = '' Pink '' # []" by (simp add: w0_def)
  have g: "''pink'' = py_lower (py_strip '' Pink '')"
    by (simp add: session_defs)
  show ?thesis
    using b c d e g [symmetric]
      map_options_defaulted [of "[(''loc'', JStr ''37.4,-122.08'')]" "''37.4,-122.08''"
        "''37.4''" "''-122.08''" sample_float "37.4" "- 122.08" sample_int "?w" 25 "?w1"
        "'' Pink ''" "[]" "''pink''", OF a b c d e f g]
    by (simp add: marker_colors_def w0_def)
qed

text \<open>
  The same holds of a colour set off by the no-break space, which \<^verbatim>\<open>strip\<close> removes:
  the map is drawn with red, and no notice is printed.
\<close>

lemma no_break_space_around_color:
  "choice_5 sample_int sample_float sample_record
       (w0\<lparr>stdin := [''12'', CHR 0xA0 # ''red'' @ [CHR 0x85]]\<rparr>) =
     Continue sample_record
       (w0\<lparr>stdin := [],
           stdout :=
             [Prompt ''Enter zoom level (1-18, default 10): '',
              Print (CHR 0x0A # ''Available marker colors: red, blue, green, purple, orange''),
              Prompt ''Enter marker color (default blue): '',
              CreateMap 37.4 (- 122.08) 12 ''red'' sample_record]\<rparr>)"
  by (simp add: fetch_defs session_defs)

section \<open>Location data that cannot be read\<close>

text \<open>
  Three kinds of unreadable location data are reported and the loop goes on: when the
  slot holds a record whose \<^verbatim>\<open>loc\<close> is absent, or is a text that does not split at
  commas into exactly two parts, or a text with a part that is not a number, choice 5
  prints one error notice and nothing else happens: no map is created, no input is
  read, the slot is unchanged.
\<close>

lemma malformed_text_loc_is_reported:
  assumes "kvs \<noteq> []"
    and "map_of kvs ''loc'' = None \<or>
         (\<exists>s. map_of kvs ''loc'' = Some (JStr s) \<and>
              (length (py_split (CHR '','') s) \<noteq> 2 \<or>
               fc (py_split (CHR '','') s ! 0) = None \<or>
               fc (py_split (CHR '','') s ! 1) = None))"
  shows "\<exists>notice. choice_5 ic fc (JObj kvs) w = Continue (JObj kvs) (emit (Print notice) w)"
  using assms
  by (auto simp: choice_5_def dict_get_def Let_def split: option.splits)

lemma malformed_text_loc_runs:
  "choice_5 sample_int sample_float (JObj [(''ip'', JStr ''8.8.8.8'')]) w0 =
     Continue (JObj [(''ip'', JStr ''8.8.8.8'')])
       (emit (Print ''Error: Could not extract location data.'') w0) \<and>
   choice_5 sample_int sample_float (JObj [(''loc'', JStr ''1,2,3'')]) w0 =
     Continue (JObj [(''loc'', JStr ''1,2,3'')])
       (emit (Print ''Error: Could not extract location data.'') w0) \<and>
   choice_5 sample_int sample_float (JObj [(''loc'', JStr ''north,east'')]) w0 =
     Continue (JObj [(''loc'', JStr ''north,east'')])
       (emit (Print ''Error: Invalid location data format.'') w0)"
proof -
  have a: "map_of [(''ip'', JStr ''8.8.8.8'')] ''loc'' = None \<or>
         (\<exists>s. map_of [(''ip'', JStr ''8.8.8.8'')] ''loc'' = Some (JStr s) \<and>
              (length (py_split (CHR '','') s) \<noteq> 2 \<or>
               sample_float (py_split (CHR '','') s ! 0) = None \<or>
               sample_float (py_split (CHR '','') s ! 1) = None))"
    by simp
  have b: "map_of [(''loc'', JStr ''1,2,3'')] ''loc'' = None \<or>
         (\<exists>s. map_of [(''loc'', JStr ''1,2,3'')] ''loc'' = Some (JStr s) \<and>
              (length (py_split (CHR '','') s) \<noteq> 2 \<or>
               sample_float (py_split (CHR '','') s ! 0) = None \<or>
               sample_float (py_split (CHR '','') s ! 1) = None))"
    by simp
  have c: "map_of [(''loc'', JStr ''north,east'')] ''loc'' = None \<or>
         (\<exists>s. map_of [(''loc'', JStr ''north,east'')] ''loc'' = Some (JStr s) \<and>
              (length (py_split (CHR '','') s) \<noteq> 2 \<or>
               sample_float (py_split (CHR '','') s ! 0) = None \<or>
               sample_float (py_split (CHR '','') s ! 1) = None))"
    by (simp add: sample_float_def)
  show ?thesis
    using malformed_text_loc_is_reported [of "[(''ip'', JStr ''8.8.8.8'')]" sample_float sample_int w0, OF _ a]
      malformed_text_loc_is_reported [of "[(''loc'', JStr ''1,2,3'')]" sample_float sample_int w0, OF _ b]
      malformed_text_loc_is_reported [of "[(''loc'', JStr ''north,east'')]" sample_float sample_int w0, OF _ c]
    by (simp add: choice_5_def dict_get_def sample_float_def)
qed

text \<open>
  C10. The Render map action should report every record whose location data cannot
  be read and return to the menu without raising. It does not when \<^verbatim>\<open>loc\<close> is present
  and is not text: on \<^verbatim>\<open>null\<close> the call of \<^verbatim>\<open>split\<close> raises \<^verbatim>\<open>AttributeError\<close>,
  which the handler for \<^verbatim>\<open>ValueError\<close> at line 197 does not catch, and the session ends
  where the three cases above print a notice. The provider can put the session there:
  started on the input 1, 5 with an answer whose \<^verbatim>\<open>loc\<close> is \<^verbatim>\<open>null\<close>, the program stores
  the record at choice 1 and ends with the exception at choice 5.
\<close>

theorem null_loc_ends_the_session:
  "choice_5 sample_int sample_float (JObj [(''loc'', JNull)]) w0 =
     Crash (AttributeError ''split'') w0 \<and>
   fst (main sample_int sample_float (answering 200 (JObj [(''loc'', JNull)]))
          (w0\<lparr>stdin := [''1'', ''5'']\<rparr>)) = Some (AttributeError ''split'')"
  by (simp add: main_def main_loop.simps main_body_def display_menu_def menu_lines_def
      fetch_defs session_defs)

end
